theory Spec2Isabelle
  imports Main "HOL-Library.Word"
begin

section \<open>Common types\<close>

type_synonym byte = "8 word"

text \<open>
  A Go \<open>error\<close> value is \<open>None\<close> for \<open>nil\<close> and \<open>Some text\<close> for an error whose
  \<open>Error()\<close> method returns \<open>text\<close>.
\<close>

type_synonym go_error = "string option"

section \<open>ClientConnector: the frame relay\<close>

text \<open>
  The \<open>Frame\<close> type is declared outside the files at hand. The relay reads only its
  \<open>Direction\<close> field (an integer, compared with 0 and printed with \<open>%d\<close>); the rest of
  a frame is carried along as raw bytes.
\<close>

record Frame =
  Direction :: int
  RawBytes :: "byte list"

text \<open>
  \<open>readAndParseFrame\<close> is declared outside the files at hand as well. The request loop
  distinguishes three kinds of error it returns: \<open>ShutdownErr\<close> (the context was
  cancelled), \<open>io.EOF\<close>, and any other error. What the successive calls return is the
  input of the loop.
\<close>

datatype read_error = ShutdownErr | EOF | OtherError string

datatype read_result = GotFrame Frame | GotError read_error

text \<open>
  The effects of the goroutine started by \<open>listenForRequests\<close>: the frames sent on
  \<open>cc.requestChannel\<close> (oldest first; a send completes when the consumer has taken
  the frame), and how often \<open>close(cc.requestChannel)\<close>,
  \<open>cc.clientHandlerCancelFunc()\<close> and \<open>cc.waitGroup.Done()\<close> have been called.
  \<open>reqReturned\<close> tells whether the goroutine has returned; it has not when it waits in
  \<open>readAndParseFrame\<close> for input that has not arrived.
\<close>

record request_effects =
  requestChannel :: "Frame list"
  requestChannelCloses :: nat
  cancelCalls :: nat
  reqWaitGroupDone :: nat
  reqReturned :: bool

definition request_start :: request_effects where
  "request_start =
     \<lparr>requestChannel = [], requestChannelCloses = 0, cancelCalls = 0,
      reqWaitGroupDone = 0, reqReturned = False\<rparr>"

text \<open>
  The two deferred calls of the goroutine, run in reverse order of their \<open>defer\<close>
  statements when it returns: \<open>close(cc.requestChannel)\<close>, then
  \<open>cc.waitGroup.Done()\<close>.
\<close>

definition request_deferred :: "request_effects \<Rightarrow> request_effects" where
  "request_deferred s =
     s\<lparr>requestChannelCloses := requestChannelCloses s + 1,
       reqWaitGroupDone := reqWaitGroupDone s + 1,
       reqReturned := True\<rparr>"

text \<open>The \<open>for\<close> loop of the goroutine in \<open>listenForRequests\<close>.\<close>

fun requestLoop :: "read_result list \<Rightarrow> request_effects \<Rightarrow> request_effects" where
  "requestLoop [] s = s"
| "requestLoop (GotError e # rest) s =
     (if e = ShutdownErr then request_deferred s
      else request_deferred (s\<lparr>cancelCalls := cancelCalls s + 1\<rparr>))"
| "requestLoop (GotFrame frame # rest) s =
     (if Direction frame \<noteq> 0 then requestLoop rest s
      else requestLoop rest (s\<lparr>requestChannel := requestChannel s @ [frame]\<rparr>))"

definition listenForRequests :: "read_result list \<Rightarrow> request_effects" where
  "listenForRequests reads = requestLoop reads request_start"








section \<open>Control messages (package updates)\<close>

unbundle bit_operations_syntax

type_synonym UpdateType = int

definition TableUpdate :: UpdateType where "TableUpdate = 0"
definition TableRestart :: UpdateType where "TableRestart = 1"
definition Start :: UpdateType where "Start = 2"
definition Complete :: UpdateType where "Complete = 3"
definition Shutdown :: UpdateType where "Shutdown = 4"
definition Success :: UpdateType where "Success = 5"
definition Failure :: UpdateType where "Failure = 6"

text \<open>
  The struct \<open>Update\<close>. A Go string is a sequence of bytes, as an Isabelle \<open>string\<close>
  is; \<open>Data\<close> is a byte slice, \<open>None\<close> for the \<open>nil\<close> slice.
\<close>

record Update =
  ID :: string
  Type :: UpdateType
  Data :: "byte list option"
  Error :: string

text \<open>
  \<open>encoding/json\<close> is not part of the repository. The functions below take
  \<open>json.Marshal\<close> and \<open>json.Unmarshal\<close> (at type \<open>Update\<close>) as parameters:
  \<open>Inl\<close> carries the text of the error returned, \<open>Inr\<close> the result.
\<close>

type_synonym marshaller = "Update \<Rightarrow> string + byte list"
type_synonym unmarshaller = "byte list \<Rightarrow> string + Update"

text \<open>\<open>binary.BigEndian.PutUint32\<close> and \<open>binary.BigEndian.Uint32\<close> on a 4-byte slice.\<close>

definition PutUint32 :: "32 word \<Rightarrow> byte list" where
  "PutUint32 v =
     [ucast (drop_bit 24 v), ucast (drop_bit 16 v), ucast (drop_bit 8 v), ucast v]"

fun Uint32 :: "byte list \<Rightarrow> 32 word option" where
  "Uint32 (b0 # b1 # b2 # b3 # _) =
     Some (ucast b3 OR push_bit 8 (ucast b2) OR push_bit 16 (ucast b1) OR
           push_bit 24 (ucast b0))"
| "Uint32 _ = None"

text \<open>
  \<open>Update.Serialize\<close>: the marshalled message behind its length, \<open>uint32(len(marshaled))\<close>,
  as 4 big-endian bytes. The result is the pair of the bytes and the error returned.
\<close>

definition Update_Serialize :: "marshaller \<Rightarrow> Update \<Rightarrow> byte list \<times> go_error" where
  "Update_Serialize marshal u =
     (case marshal u of
        Inl err \<Rightarrow> ([], Some err)
      | Inr marshaled \<Rightarrow> (PutUint32 (of_nat (length marshaled)) @ marshaled, None))"

text \<open>
  A call that dereferences a \<open>nil\<close> interface value panics instead of returning.
\<close>

datatype 'a go_call = NilDereference | Returned 'a

definition Update_Success :: "marshaller \<Rightarrow> Update \<Rightarrow> byte list \<times> go_error" where
  "Update_Success marshal u =
     Update_Serialize marshal \<lparr>ID = ID u, Type = Success, Data = None, Error = []\<rparr>"

text \<open>\<open>Update.Failure(err)\<close> calls \<open>err.Error()\<close>, which panics when \<open>err\<close> is \<open>nil\<close>.\<close>

definition Update_Failure ::
  "marshaller \<Rightarrow> Update \<Rightarrow> go_error \<Rightarrow> (byte list \<times> go_error) go_call" where
  "Update_Failure marshal u err =
     (case err of
        None \<Rightarrow> NilDereference
      | Some text \<Rightarrow>
          Returned (Update_Serialize marshal
            \<lparr>ID = ID u, Type = Failure, Data = None, Error = text\<rparr>))"

section \<open>Send: delivery with retries\<close>

text \<open>
  The package \<open>github.com/jpillora/backoff\<close> is an external dependency; its source is
  not part of the repository. \<open>Backoff\<close>, \<open>ForAttempt\<close> and \<open>Duration\<close> follow that
  package: a \<open>Backoff\<close> counts the calls of \<open>Duration\<close>, starting at 0, and the call
  number \<open>n\<close> returns \<open>Min * Factor ^ n\<close> kept between \<open>Min\<close> and \<open>Max\<close>.
  Durations are in nanoseconds, as \<open>time.Duration\<close> is. The package computes
  \<open>float64(Min) * math.Pow(Factor, n)\<close>; with a whole \<open>Factor\<close> that product is modelled
  exactly (for the values \<open>Send\<close> uses, 200 ms and 2, the floating-point product is
  exact until it overflows, and the overflow is caught by the same test against
  \<open>maxInt64\<close>). \<open>Jitter\<close> is \<open>false\<close> in \<open>Send\<close>; the randomised branch is left out.
\<close>

record Backoff =
  Min :: int
  Max :: int
  Factor :: int
  attempt :: nat

definition Millisecond :: int where "Millisecond = 1000000"
definition Second :: int where "Second = 1000000000"
definition maxInt64 :: int where "maxInt64 = 2 ^ 63 - 1 - 512"

definition ForAttempt :: "Backoff \<Rightarrow> nat \<Rightarrow> int" where
  "ForAttempt b n =
     (let min = (if Min b \<le> 0 then 100 * Millisecond else Min b);
          max = (if Max b \<le> 0 then 10 * Second else Max b)
      in if min \<ge> max then max
         else
           let factor = (if Factor b \<le> 0 then 2 else Factor b);
               durf = min * factor ^ n
           in if durf > maxInt64 then max
              else if durf < min then min
              else if durf > max then max
              else durf)"

definition Duration :: "Backoff \<Rightarrow> int \<times> Backoff" where
  "Duration b = (ForAttempt b (attempt b), b\<lparr>attempt := attempt b + 1\<rparr>)"

text \<open>
  What the goroutine started by \<open>Send\<close> does, in order: it hands the serialized update
  to \<open>dst.Write\<close>, and after a failed write it sleeps for the duration the backoff
  returns. The input is whether each successive write fails (\<open>True\<close>: the write
  returned an error); the trace ends where the goroutine returns or where it waits for
  a write whose outcome is not given.
\<close>

datatype send_event = WriteAttempt "byte list" | Sleep int

fun sendLoop :: "byte list \<Rightarrow> bool list \<Rightarrow> Backoff \<Rightarrow> send_event list" where
  "sendLoop marshaledUpdate [] b = []"
| "sendLoop marshaledUpdate (failed # rest) b =
     WriteAttempt marshaledUpdate #
       (if failed
        then (case Duration b of
                (duration, b') \<Rightarrow> Sleep duration # sendLoop marshaledUpdate rest b')
        else [])"

definition Send :: "marshaller \<Rightarrow> Update \<Rightarrow> bool list \<Rightarrow> go_error \<times> send_event list" where
  "Send marshal update writeFails =
     (case Update_Serialize marshal update of
        (_, Some err) \<Rightarrow> (Some err, [])
      | (marshaledUpdate, None) \<Rightarrow>
          (None,
           sendLoop marshaledUpdate writeFails
             \<lparr>Min = 200 * Millisecond, Max = 10 * Second, Factor = 2, attempt = 0\<rparr>))"

section \<open>CommunicationHandler: the control-channel dispatcher\<close>

text \<open>
  The source connection is given by what its successive \<open>Read\<close> calls return: the
  bytes read and the error. A \<open>Read\<close> never returns more bytes than its buffer holds,
  so the model keeps at most that many.
\<close>

datatype io_error = io_EOF | io_other string

type_synonym read_return = "byte list \<times> io_error option"

text \<open>
  The handler is called with a pointer to the update, so it may change the update as
  well as return an error: it is a function from the update to the update it leaves
  and the error.
\<close>

type_synonym handler = "Update \<Rightarrow> Update \<times> go_error"

datatype dispatch_status =
    Running            \<comment> \<open>between two iterations\<close>
  | Blocked            \<comment> \<open>waiting in \<open>src.Read\<close>\<close>
  | Exited int         \<comment> \<open>\<open>os.Exit\<close> with this status\<close>
  | NilErrorPanic      \<comment> \<open>\<open>err.Error()\<close> on a \<open>nil\<close> error\<close>

text \<open>
  The effects of the dispatcher: the byte slices handed to \<open>dst.Write\<close>, in order,
  the updates the handler was called with, and how the dispatcher stands. An error of
  \<open>dst.Write\<close> is only logged, so it is not part of the model.
\<close>

record dispatch_effects =
  dstWrites :: "byte list list"
  handled :: "Update list"
  dispStatus :: dispatch_status

definition dispatch_start :: dispatch_effects where
  "dispatch_start = \<lparr>dstWrites = [], handled = [], dispStatus = Running\<rparr>"

text \<open>
  Lines 265 to 282 of the loop body: the handler call and the acknowledgment. At this
  point the variable \<open>err\<close> holds the \<open>nil\<close> that \<open>json.Unmarshal\<close> returned, and it is
  \<open>err\<close>, not \<open>handlerErr\<close>, that is passed to \<open>update.Failure\<close>. When the response
  cannot be serialized the error is logged and the \<open>nil\<close> response is written all the
  same.
\<close>

definition acknowledge ::
  "marshaller \<Rightarrow> handler \<Rightarrow> Update \<Rightarrow> dispatch_effects \<Rightarrow> dispatch_effects" where
  "acknowledge marshal handler decoded s =
     (case handler decoded of
        (update, handlerErr) \<Rightarrow>
          let s1 = s\<lparr>handled := handled s @ [decoded]\<rparr>;
              err = (None :: go_error)
          in if Type update \<noteq> Success \<and> Type update \<noteq> Failure then
               (case (if handlerErr \<noteq> None then Update_Failure marshal update err
                      else Returned (Update_Success marshal update)) of
                  NilDereference \<Rightarrow> s1\<lparr>dispStatus := NilErrorPanic\<rparr>
                | Returned (resp, _) \<Rightarrow> s1\<lparr>dstWrites := dstWrites s1 @ [resp]\<rparr>)
             else s1)"

text \<open>
  Lines 249 to 263: the body of \<open>updateLen\<close> bytes has been asked for and \<open>body\<close> came
  back. Fewer bytes than asked for, or a body that does not decode, end the iteration.
\<close>

definition decodeBody ::
  "unmarshaller \<Rightarrow> 32 word \<Rightarrow> byte list \<Rightarrow> Update option" where
  "decodeBody unmarshal updateLen body =
     (let buf = take (unat updateLen) body in
      if (of_nat (length buf) :: 32 word) < updateLen then None
      else (case unmarshal buf of Inl _ \<Rightarrow> None | Inr update \<Rightarrow> Some update))"

definition handleBody ::
  "marshaller \<Rightarrow> unmarshaller \<Rightarrow> handler \<Rightarrow> 32 word \<Rightarrow> byte list \<Rightarrow>
   dispatch_effects \<Rightarrow> dispatch_effects" where
  "handleBody marshal unmarshal handler updateLen body s =
     (case decodeBody unmarshal updateLen body of
        None \<Rightarrow> s
      | Some update \<Rightarrow> acknowledge marshal handler update s)"

text \<open>
  The \<open>for\<close> loop of \<open>CommunicationHandler\<close>. A \<open>Read\<close> into a buffer of length 0
  returns at once without reading from the connection.
\<close>

fun dispatchLoop ::
  "marshaller \<Rightarrow> unmarshaller \<Rightarrow> handler \<Rightarrow> read_return list \<Rightarrow>
   dispatch_effects \<Rightarrow> dispatch_effects" where
  "dispatchLoop marshal unmarshal handler [] s = s\<lparr>dispStatus := Blocked\<rparr>"
| "dispatchLoop marshal unmarshal handler ((prefix, err) # src) s =
     (if err = Some io_EOF then s\<lparr>dispStatus := Exited 100\<rparr>
      else if length (take 4 prefix) < 4 then dispatchLoop marshal unmarshal handler src s
      else
        (case Uint32 (take 4 prefix) of
           None \<Rightarrow> dispatchLoop marshal unmarshal handler src s
         | Some updateLen \<Rightarrow>
             if updateLen = 0 then
               (let s1 = handleBody marshal unmarshal handler updateLen [] s in
                if dispStatus s1 = Running
                then dispatchLoop marshal unmarshal handler src s1 else s1)
             else
               (case src of
                  [] \<Rightarrow> s\<lparr>dispStatus := Blocked\<rparr>
                | (body, _) # src' \<Rightarrow>
                    let s1 = handleBody marshal unmarshal handler updateLen body s in
                    if dispStatus s1 = Running
                    then dispatchLoop marshal unmarshal handler src' s1 else s1)))"

definition CommunicationHandler ::
  "marshaller \<Rightarrow> unmarshaller \<Rightarrow> handler \<Rightarrow> read_return list \<Rightarrow> dispatch_effects" where
  "CommunicationHandler marshal unmarshal handler src =
     dispatchLoop marshal unmarshal handler src dispatch_start"

section \<open>Session teardown\<close>





section \<open>Properties of the request loop\<close>

lemma requestLoop_frames:
  "requestChannel (requestLoop (map GotFrame fs) s) =
     requestChannel s @ filter (\<lambda>f. Direction f = 0) fs"
  by (induction fs arbitrary: s) auto

lemma requestLoop_frames_error:
  "requestChannel (requestLoop (map GotFrame fs @ GotError e # rest) s) =
     requestChannel s @ filter (\<lambda>f. Direction f = 0) fs"
  by (induction fs arbitrary: s) (auto simp: request_deferred_def)

text \<open>
  Claim C3. Whatever frames \<open>fs\<close> the request loop reads, whether the reads then stop
  coming or end in an error \<open>e\<close>, the request channel receives exactly the frames of
  \<open>fs\<close> whose direction is 0, in their original order; a frame with any other
  direction is dropped and the frames after it are still processed.
\<close>

theorem direction_filtering:
  "requestChannel (listenForRequests (map GotFrame fs)) =
     filter (\<lambda>f. Direction f = 0) fs \<and>
   requestChannel (listenForRequests (map GotFrame fs @ GotError e # rest)) =
     filter (\<lambda>f. Direction f = 0) fs"
  by (simp add: listenForRequests_def requestLoop_frames requestLoop_frames_error
      request_start_def)

lemma requestLoop_counters:
  "requestChannelCloses (requestLoop (map GotFrame fs @ GotError e # rest) s) =
     requestChannelCloses s + 1 \<and>
   cancelCalls (requestLoop (map GotFrame fs @ GotError e # rest) s) =
     cancelCalls s + (if e = ShutdownErr then 0 else 1) \<and>
   reqReturned (requestLoop (map GotFrame fs @ GotError e # rest) s)"
  by (induction fs arbitrary: s) (auto simp: request_deferred_def)

lemma requestLoop_running:
  "requestChannelCloses (requestLoop (map GotFrame fs) s) = requestChannelCloses s \<and>
   cancelCalls (requestLoop (map GotFrame fs) s) = cancelCalls s \<and>
   reqReturned (requestLoop (map GotFrame fs) s) = reqReturned s"
  by (induction fs arbitrary: s) auto

text \<open>
  Claim C6. The request loop stops exactly when a read returns an error \<open>e\<close>, after any
  frames \<open>fs\<close>. On each such path (\<open>ShutdownErr\<close>, \<open>io.EOF\<close>, any other error) the
  request channel is closed exactly once and the goroutine returns; the cancel function
  is called once on \<open>io.EOF\<close> and on other errors and not at all on \<open>ShutdownErr\<close>.
  While no read has failed the channel is not closed and the loop has not returned.
\<close>

theorem request_loop_termination:
  "requestChannelCloses (listenForRequests (map GotFrame fs @ GotError e # rest)) = 1 \<and>
   reqReturned (listenForRequests (map GotFrame fs @ GotError e # rest)) \<and>
   cancelCalls (listenForRequests (map GotFrame fs @ GotError e # rest)) =
     (if e = ShutdownErr then 0 else 1) \<and>
   requestChannelCloses (listenForRequests (map GotFrame fs)) = 0 \<and>
   \<not> reqReturned (listenForRequests (map GotFrame fs))"
  by (simp add: listenForRequests_def requestLoop_counters requestLoop_running
      request_start_def)

section \<open>Properties of the response loop\<close>









section \<open>Properties of the dispatcher\<close>

lemmas UpdateType_defs = TableUpdate_def TableRestart_def Start_def Complete_def
  Shutdown_def Success_def Failure_def

text \<open>
  The acknowledgment of a request the handler accepts: one write to the destination,
  the serialized \<open>Success\<close> update with the identifier of the request.
\<close>

lemma acknowledge_handler_ok:
  "handler u = (u, None) \<Longrightarrow> Type u \<noteq> Success \<Longrightarrow> Type u \<noteq> Failure \<Longrightarrow>
   acknowledge marshal handler u s =
     s\<lparr>handled := handled s @ [u],
       dstWrites := dstWrites s @
         [fst (Update_Serialize marshal
            \<lparr>ID = ID u, Type = Success, Data = None, Error = []\<rparr>)]\<rparr>"
  by (simp add: acknowledge_def Update_Success_def split: prod.splits)

text \<open>
  Claim C1 at a failing input. A \<open>Start\<close> update with identifier \<open>X\<close> and payload
  \<open>tbl1\<close> goes to a handler that returns the error \<open>disk full\<close>. The claim promises
  one \<open>Failure\<close> message with that identifier and error text; the dispatcher calls
  \<open>update.Failure\<close> with the \<open>nil\<close> variable \<open>err\<close> instead of \<open>handlerErr\<close>,
  panics and writes nothing, whatever \<open>json.Marshal\<close> does.
\<close>

theorem handler_error_writes_nothing:
  "acknowledge marshal (\<lambda>u. (u, Some ''disk full''))
     \<lparr>ID = ''X'', Type = Start, Data = Some [116, 98, 108, 49], Error = []\<rparr>
     dispatch_start =
   \<lparr>dstWrites = [],
    handled = [\<lparr>ID = ''X'', Type = Start, Data = Some [116, 98, 108, 49], Error = []\<rparr>],
    dispStatus = NilErrorPanic\<rparr>"
  by (simp add: acknowledge_def dispatch_start_def Update_Failure_def UpdateType_defs)

lemma dispatchLoop_EOF:
  "dispatchLoop marshal unmarshal handler ((prefix, Some io_EOF) # src) s =
     s\<lparr>dispStatus := Exited 100\<rparr>"
  by simp

text \<open>
  Claim C5 at a failing input. The source delivers a length prefix of 2 and a body of 2
  bytes, twice, and never ends; the body decodes to a \<open>Start\<close> update and the handler
  returns an error. No read returns \<open>io.EOF\<close>, yet the dispatcher does not go on to
  the second message: it stops in the panic of \<open>err.Error()\<close>, which ends the process.
  (A prefix read that returns \<open>io.EOF\<close> does exit with status 100: lemma
  \<open>dispatchLoop_EOF\<close>.)
\<close>

theorem handler_error_stops_dispatcher:
  "dispStatus
     (CommunicationHandler marshal
        (\<lambda>_. Inr \<lparr>ID = ''X'', Type = Start, Data = None, Error = []\<rparr>)
        (\<lambda>u. (u, Some ''disk full''))
        [([0, 0, 0, 2], None), ([123, 125], None),
         ([0, 0, 0, 2], None), ([123, 125], None)]) =
   NilErrorPanic"
  by (simp add: CommunicationHandler_def dispatch_start_def handleBody_def decodeBody_def
      acknowledge_def Update_Failure_def UpdateType_defs)



section \<open>Properties of Send\<close>

lemma ForAttempt_Send:
  "ForAttempt \<lparr>Min = 200 * Millisecond, Max = 10 * Second, Factor = 2, attempt = a\<rparr> n =
     min (10 * Second) (200 * Millisecond * 2 ^ n)"
proof -
  have p: "\<not> (2::int) ^ n < 1"
    by (simp add: not_less)
  show ?thesis
    by (auto simp: ForAttempt_def Millisecond_def Second_def maxInt64_def Let_def min_def p)
qed

lemma sendLoop_failures:
  "sendLoop m (replicate k True @ rest)
      \<lparr>Min = 200 * Millisecond, Max = 10 * Second, Factor = 2, attempt = a\<rparr> =
   concat (map (\<lambda>i. [WriteAttempt m, Sleep (min (10 * Second) (200 * Millisecond * 2 ^ (a + i)))])
     [0..<k]) @
   sendLoop m rest \<lparr>Min = 200 * Millisecond, Max = 10 * Second, Factor = 2, attempt = a + k\<rparr>"
proof (induction k arbitrary: a)
  case 0
  then show ?case by simp
next
  case (Suc k)
  have "[0..<Suc k] = 0 # map Suc [0..<k]"
    by (simp add: upt_conv_Cons map_Suc_upt del: upt_Suc)
  then show ?case
    using Suc.IH [of "Suc a"]
    by (simp add: Duration_def ForAttempt_Send comp_def del: upt_Suc)
qed

text \<open>
  Claim C4, amended. When the update serializes to \<open>m\<close> and the first \<open>k\<close> writes
  fail, the goroutine of \<open>Send\<close> writes \<open>m\<close> at once, and after the failed attempt
  number \<open>i + 1\<close> (for \<open>i\<close> from 0 to \<open>k - 1\<close>) it sleeps for
  \<open>min (10 s) (200 ms * 2 ^ i)\<close> before the next attempt: the delay before attempt
  \<open>k + 1\<close> is \<open>min Max (Min * Factor ^ (k - 1))\<close>.
\<close>

theorem send_backoff_delays:
  assumes "Update_Serialize marshal update = (m, None)"
  shows "snd (Send marshal update (replicate k True @ [False])) =
     concat (map (\<lambda>i. [WriteAttempt m, Sleep (min (10 * Second) (200 * Millisecond * 2 ^ i))])
       [0..<k]) @ [WriteAttempt m]"
  using assms by (simp add: Send_def sendLoop_failures [where a = 0, simplified])

theorem send_backoff_delays_witness:
  "Update_Serialize (\<lambda>_. Inr [123, 125]) \<lparr>ID = ''X'', Type = Start, Data = None, Error = []\<rparr> =
     ([0, 0, 0, 2, 123, 125], None) \<and>
   snd (Send (\<lambda>_. Inr [123, 125]) \<lparr>ID = ''X'', Type = Start, Data = None, Error = []\<rparr>
     [True, True, False]) =
     [WriteAttempt [0, 0, 0, 2, 123, 125], Sleep 200000000,
      WriteAttempt [0, 0, 0, 2, 123, 125], Sleep 400000000,
      WriteAttempt [0, 0, 0, 2, 123, 125]]"
proof -
  have s: "Update_Serialize (\<lambda>_. Inr [123, 125])
      \<lparr>ID = ''X'', Type = Start, Data = None, Error = []\<rparr> = ([0, 0, 0, 2, 123, 125], None)"
    by (simp add: Update_Serialize_def PutUint32_def)
  have r: "replicate 2 True @ [False] = [True, True, False]"
    by (simp add: numeral_2_eq_2)
  have u: "[0..<2] = [0, Suc 0]"
    by (simp add: numeral_2_eq_2)
  show ?thesis
    using send_backoff_delays [OF s, of 2] s
    by (simp add: r u Millisecond_def Second_def)
qed

text \<open>
  Claim C4 as stated fails at \<open>k = 1\<close>: after one failed attempt the delay before the
  second attempt is 200 ms, not \<open>min (10 s) (200 ms * 2 ^ 1)\<close>, which is 400 ms.
\<close>

theorem first_retry_delay_is_Min:
  "snd (Send (\<lambda>_. Inr [123, 125]) \<lparr>ID = ''X'', Type = Start, Data = None, Error = []\<rparr>
     [True, False]) =
     [WriteAttempt [0, 0, 0, 2, 123, 125], Sleep 200000000,
      WriteAttempt [0, 0, 0, 2, 123, 125]] \<and>
   (200000000 :: int) \<noteq> min (10 * Second) (200 * Millisecond * 2 ^ 1)"
  by (simp add: Send_def Update_Serialize_def PutUint32_def Duration_def ForAttempt_def
      Millisecond_def Second_def maxInt64_def)

section \<open>Properties of the session teardown\<close>



section \<open>Framing of serialized updates\<close>

lemma Uint32_PutUint32: "Uint32 (PutUint32 v) = Some v"
  unfolding PutUint32_def
  apply simp
  apply (rule bit_word_eqI)
  apply (auto simp: bit_simps)
  apply (rule ccontr)
  apply (simp add: not_less)
  done

lemma unat_length32:
  "length body < 2 ^ 32 \<Longrightarrow> unat (of_nat (length body) :: 32 word) = length body"
  by (simp add: unat_of_nat)

lemma decodeBody_exact:
  "length body < 2 ^ 32 \<Longrightarrow>
   decodeBody unmarshal (of_nat (length body)) body =
     (case unmarshal body of Inl _ \<Rightarrow> None | Inr update \<Rightarrow> Some update)"
  by (simp add: decodeBody_def unat_length32)

end
